theory Spec2Isabelle
  imports Main "HOL-Library.Sublist"
begin

section \<open>MediAssist: the conversation and search orchestration of \<^verbatim>\<open>MediAssist.py\<close>\<close>

text \<open>
  The program is one Python file: \<^verbatim>\<open>search_web\<close>, \<^verbatim>\<open>format_search_results\<close>,
  \<^verbatim>\<open>get_gemini_response\<close> and the script body \<^verbatim>\<open>main\<close>. The two network services are
  outside the repository. What a call to them yields is an input of the model (an
  exception with its message, or a value), and what the program sends to them is kept in
  two logs, so that statements about "what the provider has seen" and "no search call is
  made" can be written down.
\<close>

subsection \<open>JSON values and the Python operations the formatter applies to them\<close>

text \<open>
  \<^verbatim>\<open>response.json()\<close> returns whatever JSON the body holds, so the formatter's argument is
  an arbitrary JSON value. A dict is an association list (keys distinct, as in a Python
  dict); a number is kept as its lexeme, since the program never computes with one.
\<close>

datatype json =
    JNull
  | JBool bool
  | JNum string
  | JStr string
  | JArr "json list"
  | JObj "(string \<times> json) list"

text \<open>
  Exceptions are values. \<open>Raised m\<close> is an exception of a library call whose \<^verbatim>\<open>str(e)\<close> is
  \<open>m\<close>; the others are raised by the interpreter on an ill-shaped JSON value.
\<close>

datatype py_exn = Raised string | TypeError | AttributeError | KeyError

text \<open>
  Two functions of the Python runtime are parameters: \<^verbatim>\<open>str(v)\<close> for a JSON value that is
  not a string (the text of a float, a list or a dict is the interpreter's business), and
  the message of an exception the interpreter raises itself (it differs between versions).
\<close>

record py_runtime =
  str_json :: "json \<Rightarrow> string"
  str_builtin :: "py_exn \<Rightarrow> string"

fun py_str :: "py_runtime \<Rightarrow> json \<Rightarrow> string" where
  "py_str rt (JStr s) = s"
| "py_str rt v = str_json rt v"

fun str_exn :: "py_runtime \<Rightarrow> py_exn \<Rightarrow> string" where
  "str_exn rt (Raised m) = m"
| "str_exn rt e = str_builtin rt e"

text \<open>\<^verbatim>\<open>k in v\<close>: key membership for a dict, element membership for a list, substring for a
  string, \<^verbatim>\<open>TypeError\<close> for \<^verbatim>\<open>None\<close>, a bool or a number.\<close>

fun py_in :: "string \<Rightarrow> json \<Rightarrow> py_exn + bool" where
  "py_in k (JObj kvs) = Inr (k \<in> set (map fst kvs))"
| "py_in k (JArr xs) = Inr (JStr k \<in> set xs)"
| "py_in k (JStr s) = Inr (sublist k s)"
| "py_in k v = Inl TypeError"

text \<open>\<^verbatim>\<open>v[k]\<close> with a string \<open>k\<close>: only a dict can be indexed so.\<close>

fun py_getitem :: "json \<Rightarrow> string \<Rightarrow> py_exn + json" where
  "py_getitem (JObj kvs) k = (case map_of kvs k of Some v \<Rightarrow> Inr v | None \<Rightarrow> Inl KeyError)"
| "py_getitem v k = Inl TypeError"

text \<open>\<^verbatim>\<open>v[:n]\<close>, as the sequence the \<^verbatim>\<open>for\<close> loop then walks: a list gives its first \<open>n\<close>
  elements, a string its first \<open>n\<close> characters (each a one-character string); anything else
  raises (a dict raises \<^verbatim>\<open>TypeError\<close> before Python 3.12 and \<^verbatim>\<open>KeyError\<close> from 3.12 on; the
  class is not observable in this program, only that it raises).\<close>

fun py_slice_to :: "nat \<Rightarrow> json \<Rightarrow> py_exn + json list" where
  "py_slice_to n (JArr xs) = Inr (take n xs)"
| "py_slice_to n (JStr s) = Inr (map (\<lambda>c. JStr [c]) (take n s))"
| "py_slice_to n v = Inl TypeError"

text \<open>\<^verbatim>\<open>v.get(k, d)\<close>: only a dict has the method.\<close>

fun py_get :: "json \<Rightarrow> string \<Rightarrow> json \<Rightarrow> py_exn + json" where
  "py_get (JObj kvs) k d = Inr (case map_of kvs k of Some v \<Rightarrow> v | None \<Rightarrow> d)"
| "py_get v k d = Inl AttributeError"

text \<open>\<^verbatim>\<open>str(i)\<close> for the loop counter.\<close>

function str_nat :: "nat \<Rightarrow> string" where
  "str_nat n = (if n < 10 then [''0123456789'' ! n]
                else str_nat (n div 10) @ [''0123456789'' ! (n mod 10)])"
  by pat_completeness auto
termination
  by (relation "measure (\<lambda>n. n)") auto

declare str_nat.simps [simp del]

subsection \<open>\<^verbatim>\<open>format_search_results\<close>\<close>

text \<open>One pass of the loop body (lines 75 to 78): three \<^verbatim>\<open>get\<close>s with their defaults, then
  the entry is appended to \<^verbatim>\<open>formatted_results\<close>.\<close>

definition organic_entry :: "py_runtime \<Rightarrow> nat \<Rightarrow> json \<Rightarrow> py_exn + string" where
  "organic_entry rt i result =
     (case py_get result ''title'' (JStr ''No title'') of Inl e \<Rightarrow> Inl e | Inr title \<Rightarrow>
      case py_get result ''link'' (JStr ''No link'') of Inl e \<Rightarrow> Inl e | Inr link \<Rightarrow>
      case py_get result ''snippet'' (JStr ''No description'') of Inl e \<Rightarrow> Inl e | Inr snippet \<Rightarrow>
      Inr (str_nat i @ ''. '' @ py_str rt title @ ''\<newline>   URL: '' @ py_str rt link
           @ ''\<newline>   Description: '' @ py_str rt snippet @ ''\<newline>\<newline>''))"

text \<open>The \<^verbatim>\<open>for i, result in enumerate(..., 1)\<close> loop, from counter \<open>i\<close> on, with the string
  built so far.\<close>

fun organic_loop :: "py_runtime \<Rightarrow> nat \<Rightarrow> json list \<Rightarrow> string \<Rightarrow> py_exn + string" where
  "organic_loop rt i [] formatted_results = Inr formatted_results"
| "organic_loop rt i (result # rest) formatted_results =
     (case organic_entry rt i result of
        Inl e \<Rightarrow> Inl e
      | Inr entry \<Rightarrow> organic_loop rt (Suc i) rest (formatted_results @ entry))"

text \<open>Lines 73 to 78.\<close>

definition add_organic :: "py_runtime \<Rightarrow> json \<Rightarrow> string \<Rightarrow> py_exn + string" where
  "add_organic rt results formatted_results =
     (case py_in ''organic'' results of
        Inl e \<Rightarrow> Inl e
      | Inr False \<Rightarrow> Inr formatted_results
      | Inr True \<Rightarrow>
          (case py_getitem results ''organic'' of Inl e \<Rightarrow> Inl e | Inr organic \<Rightarrow>
           case py_slice_to 5 organic of Inl e \<Rightarrow> Inl e | Inr first \<Rightarrow>
           organic_loop rt 1 first formatted_results))"

text \<open>Lines 80 to 85.\<close>

definition add_answer_box :: "py_runtime \<Rightarrow> json \<Rightarrow> string \<Rightarrow> py_exn + string" where
  "add_answer_box rt results formatted_results =
     (case py_in ''answerBox'' results of
        Inl e \<Rightarrow> Inl e
      | Inr False \<Rightarrow> Inr formatted_results
      | Inr True \<Rightarrow>
          (case py_getitem results ''answerBox'' of Inl e \<Rightarrow> Inl e | Inr answer_box \<Rightarrow>
           case py_get answer_box ''title'' (JStr '''') of Inl e \<Rightarrow> Inl e | Inr title \<Rightarrow>
           case py_get answer_box ''answer'' (JStr '''') of Inl e \<Rightarrow> Inl e | Inr answer \<Rightarrow>
           case py_get answer_box ''snippet'' (JStr '''') of Inl e \<Rightarrow> Inl e | Inr snippet \<Rightarrow>
           Inr (formatted_results @ ''Featured Medical Answer: '' @ py_str rt title @ ''\<newline>''
                @ py_str rt answer @ ''\<newline>'' @ py_str rt snippet @ ''\<newline>\<newline>'')))"

text \<open>Lines 87 to 91.\<close>

definition add_knowledge_graph :: "py_runtime \<Rightarrow> json \<Rightarrow> string \<Rightarrow> py_exn + string" where
  "add_knowledge_graph rt results formatted_results =
     (case py_in ''knowledgeGraph'' results of
        Inl e \<Rightarrow> Inl e
      | Inr False \<Rightarrow> Inr formatted_results
      | Inr True \<Rightarrow>
          (case py_getitem results ''knowledgeGraph'' of Inl e \<Rightarrow> Inl e | Inr kg \<Rightarrow>
           case py_get kg ''title'' (JStr '''') of Inl e \<Rightarrow> Inl e | Inr title \<Rightarrow>
           case py_get kg ''description'' (JStr '''') of Inl e \<Rightarrow> Inl e | Inr description \<Rightarrow>
           Inr (formatted_results @ ''Medical Knowledge: '' @ py_str rt title @ ''\<newline>''
                @ py_str rt description @ ''\<newline>\<newline>'')))"

definition results_header :: string where
  "results_header = ''Medical Search Results:\<newline>\<newline>''"

definition format_search_results :: "py_runtime \<Rightarrow> json \<Rightarrow> py_exn + string" where
  "format_search_results rt results =
     (case py_in ''error'' results of
        Inl e \<Rightarrow> Inl e
      | Inr True \<Rightarrow>
          (case py_getitem results ''error'' of
             Inl e \<Rightarrow> Inl e
           | Inr err \<Rightarrow> Inr (''Error performing search: '' @ py_str rt err))
      | Inr False \<Rightarrow>
          (case add_organic rt results results_header of Inl e \<Rightarrow> Inl e | Inr f1 \<Rightarrow>
           case add_answer_box rt results f1 of Inl e \<Rightarrow> Inl e | Inr f2 \<Rightarrow>
           add_knowledge_graph rt results f2))"

subsection \<open>The session and the outside world\<close>

text \<open>
  A display message is the dict \<^verbatim>\<open>{"role": r, "content": c}\<close>, a model turn the dict
  \<^verbatim>\<open>{"role": r, "parts": [p, ...]}\<close>; both are pairs here.
\<close>

type_synonym message = "string \<times> string"
type_synonym model_turn = "string \<times> string list"

text \<open>The body of the search request: \<^verbatim>\<open>{"q": ..., "num": ...}\<close>.\<close>

type_synonym search_request = "string \<times> nat"

text \<open>
  \<open>messages\<close>, \<open>chat_history\<close> and \<open>search_mode\<close> are the keys of \<^verbatim>\<open>st.session_state\<close>
  (the two API keys are read-only credentials of the transports and are left to them).
  \<open>search_calls\<close> and \<open>llm_calls\<close> are logs the program does not have: every request
  posted to the search provider, and every \<^verbatim>\<open>start_chat(history).send_message(text)\<close>
  with the history and the text it was given.
\<close>

record session_state =
  messages :: "message list"
  chat_history :: "model_turn list"
  search_mode :: bool
  search_calls :: "search_request list"
  llm_calls :: "(model_turn list \<times> string) list"

text \<open>
  What the LLM call of one turn does: \<^verbatim>\<open>send_message\<close> raises; or it returns a response
  whose \<^verbatim>\<open>text\<close> accessor raises (the library does so for a response without a valid part);
  or the response has a text.
\<close>

datatype llm_outcome = SendRaises string | TextRaises string | Text string

text \<open>What the search transport of one turn does (\<^verbatim>\<open>requests.post\<close> followed by
  \<^verbatim>\<open>response.json()\<close>): \<open>Inl m\<close> when either raises an exception with message \<open>m\<close>,
  \<open>Inr j\<close> when the body parses to \<open>j\<close>, whatever the status of the response (the program
  does not look at it).\<close>

type_synonym search_outcome = "string + json"

subsection \<open>\<^verbatim>\<open>initialize_session_state\<close> and \<^verbatim>\<open>search_web\<close>\<close>

text \<open>\<open>None\<close> is a new session, in which no key is set yet.\<close>

definition initialize_session_state :: "session_state option \<Rightarrow> session_state" where
  "initialize_session_state st =
     (case st of
        None \<Rightarrow> \<lparr>messages = [], chat_history = [], search_mode = False,
                  search_calls = [], llm_calls = []\<rparr>
      | Some s \<Rightarrow> s)"

definition search_web :: "search_outcome \<Rightarrow> string \<Rightarrow> session_state \<Rightarrow> json \<times> session_state" where
  "search_web net query s =
     (let payload = (query @ '' medical information'', 5::nat);
          s' = s\<lparr>search_calls := search_calls s @ [payload]\<rparr>
      in case net of
           Inr body \<Rightarrow> (body, s')
         | Inl e \<Rightarrow> (JObj [(''error'', JStr e)], s'))"

subsection \<open>\<^verbatim>\<open>get_gemini_response\<close>\<close>

definition medical_context :: string where
  "medical_context = ''\<newline>        You are MediAssist, a helpful and compassionate medical AI assistant. Your purpose is to provide\<newline>        information about medical conditions, treatments, and general health advice. \<newline>        \<newline>        Important guidelines:\<newline>        1. Always clarify that you're an AI and not a doctor\<newline>        2. Recommend consulting healthcare professionals for diagnosis and treatment\<newline>        3. Provide factual, evidence-based information\<newline>        4. Be empathetic and supportive in your tone\<newline>        5. Never make definitive diagnoses\<newline>        6. Emphasize the importance of seeking proper medical care\<newline>        7. Use clear, understandable language without excessive medical jargon\<newline>        ''"

text \<open>The two f-strings of lines 120 to 132 and 135 to 142, with the values they interpolate.\<close>

definition search_prompt :: "string \<Rightarrow> string \<Rightarrow> string \<Rightarrow> string" where
  "search_prompt context prompt search_context =
     ''\<newline>            '' @ context
     @ ''\<newline>            \<newline>            The user query is: '' @ prompt
     @ ''\<newline>            \<newline>            Here are relevant medical search results from the web:\<newline>            ''
     @ search_context
     @ ''\<newline>            \<newline>            Please provide a helpful response based on these search results and your knowledge. \<newline>            If the search results are relevant, incorporate that information. \<newline>            Always cite the sources if you use information from the search results.\<newline>            Remember to follow the medical guidelines provided above.\<newline>            ''"

definition plain_prompt :: "string \<Rightarrow> string \<Rightarrow> string" where
  "plain_prompt context prompt =
     ''\<newline>            '' @ context
     @ ''\<newline>            \<newline>            The user query is: '' @ prompt
     @ ''\<newline>            \<newline>            Please provide a helpful response based on your medical knowledge.\<newline>            Remember to follow the medical guidelines provided above.\<newline>            ''"

text \<open>The \<^verbatim>\<open>except\<close> clause of line 154.\<close>

definition error_reply :: "string \<Rightarrow> string" where
  "error_reply m = ''An error occurred: '' @ m"

text \<open>
  Lines 145 to 152. The user entry is appended (line 149) before \<^verbatim>\<open>response.text\<close> is
  first read (line 150), so an exception of the accessor leaves the user entry behind.
\<close>

definition generate :: "llm_outcome \<Rightarrow> string \<Rightarrow> string \<Rightarrow> session_state \<Rightarrow> string \<times> session_state" where
  "generate llm prompt full_prompt s =
     (let s1 = s\<lparr>llm_calls := llm_calls s @ [(chat_history s, full_prompt)]\<rparr>
      in case llm of
           SendRaises m \<Rightarrow> (error_reply m, s1)
         | TextRaises m \<Rightarrow>
             (error_reply m, s1\<lparr>chat_history := chat_history s1 @ [(''user'', [prompt])]\<rparr>)
         | Text reply \<Rightarrow>
             (reply, s1\<lparr>chat_history := chat_history s1
                          @ [(''user'', [prompt])] @ [(''model'', [reply])]\<rparr>))"

text \<open>\<^verbatim>\<open>with_search and query\<close> holds when the flag is set and the query is neither \<^verbatim>\<open>None\<close>
  nor the empty string.\<close>

definition get_gemini_response ::
  "py_runtime \<Rightarrow> search_outcome \<Rightarrow> llm_outcome \<Rightarrow> string \<Rightarrow> bool \<Rightarrow> string option
     \<Rightarrow> session_state \<Rightarrow> string \<times> session_state" where
  "get_gemini_response rt net llm prompt with_search query s =
     (case (if with_search then query else None) of
        None \<Rightarrow> generate llm prompt (plain_prompt medical_context prompt) s
      | Some q \<Rightarrow>
          if q = [] then generate llm prompt (plain_prompt medical_context prompt) s
          else
            (let (search_results, s1) = search_web net q s
             in case format_search_results rt search_results of
                  Inl e \<Rightarrow> (error_reply (str_exn rt e), s1)
                | Inr search_context \<Rightarrow>
                    generate llm prompt (search_prompt medical_context prompt search_context) s1))"

subsection \<open>\<^verbatim>\<open>main\<close>: one run of the script\<close>

definition greeting :: string where
  "greeting = ''Hello! I'm MediAssist, your medical AI assistant. I can help answer your health questions and provide general medical information. How may I assist you today? Remember, I'm not a doctor, and my responses shouldn't replace professional medical advice.''"

text \<open>
  What one run of the script receives: the value of the toggle, whether the button was
  clicked, the submitted chat input (\<^verbatim>\<open>None\<close> when nothing was submitted), and what the two
  services do if they are called in this run.
\<close>

record script_run =
  search_toggle :: bool
  clear_button :: bool
  chat_input :: "string option"
  net_outcome :: search_outcome
  llm_result :: llm_outcome

definition main :: "py_runtime \<Rightarrow> session_state \<Rightarrow> script_run \<Rightarrow> session_state" where
  "main rt s0 r =
     (let s1 = (if search_toggle r \<noteq> search_mode s0
                then s0\<lparr>search_mode := search_toggle r\<rparr> else s0);
          s2 = (if clear_button r then s1\<lparr>messages := [], chat_history := []\<rparr> else s1);
          s3 = (if messages s2 = []
                then s2\<lparr>messages := messages s2 @ [(''assistant'', greeting)]\<rparr> else s2)
      in case chat_input r of
           None \<Rightarrow> s3
         | Some user_prompt \<Rightarrow>
             if user_prompt = [] then s3
             else
               (let s4 = s3\<lparr>messages := messages s3 @ [(''user'', user_prompt)]\<rparr>;
                    (full_response, s5) =
                      get_gemini_response rt (net_outcome r) (llm_result r) user_prompt
                        (search_mode s4) (if search_mode s4 then Some user_prompt else None) s4
                in s5\<lparr>messages := messages s5 @ [(''assistant'', full_response)]\<rparr>))"

text \<open>The session after a sequence of runs, starting from a new session.\<close>

definition session_after :: "py_runtime \<Rightarrow> script_run list \<Rightarrow> session_state" where
  "session_after rt runs = foldl (main rt) (initialize_session_state None) runs"

subsection \<open>The formatter's output, section by section\<close>

text \<open>
  The text \<^verbatim>\<open>format_search_results\<close> is specified to produce for a well-shaped result, written
  as one expression: the header, the numbered organic entries, the answer-box block, the
  knowledge-graph block. \<open>field_or\<close> is a sub-field with the text that stands in for it when
  the key is missing. \<open>zip [1..<6] items\<close> pairs the first five items with 1 to 5.
\<close>

type_synonym fields = "(string \<times> json) list"

definition field_or :: "py_runtime \<Rightarrow> fields \<Rightarrow> string \<Rightarrow> string \<Rightarrow> string" where
  "field_or rt fs k placeholder =
     (case map_of fs k of Some v \<Rightarrow> py_str rt v | None \<Rightarrow> placeholder)"

definition entry_text :: "py_runtime \<Rightarrow> nat \<times> fields \<Rightarrow> string" where
  "entry_text rt e =
     str_nat (fst e) @ ''. '' @ field_or rt (snd e) ''title'' ''No title''
     @ ''\<newline>   URL: '' @ field_or rt (snd e) ''link'' ''No link''
     @ ''\<newline>   Description: '' @ field_or rt (snd e) ''snippet'' ''No description''
     @ ''\<newline>\<newline>''"

definition organic_block :: "py_runtime \<Rightarrow> fields list option \<Rightarrow> string" where
  "organic_block rt organic =
     (case organic of
        None \<Rightarrow> []
      | Some items \<Rightarrow> concat (map (entry_text rt) (zip [1..<6] items)))"

definition answer_block :: "py_runtime \<Rightarrow> fields option \<Rightarrow> string" where
  "answer_block rt answer_box =
     (case answer_box of
        None \<Rightarrow> []
      | Some fs \<Rightarrow> ''Featured Medical Answer: '' @ field_or rt fs ''title'' [] @ ''\<newline>''
                  @ field_or rt fs ''answer'' [] @ ''\<newline>'' @ field_or rt fs ''snippet'' []
                  @ ''\<newline>\<newline>'')"

definition knowledge_block :: "py_runtime \<Rightarrow> fields option \<Rightarrow> string" where
  "knowledge_block rt kg =
     (case kg of
        None \<Rightarrow> []
      | Some fs \<Rightarrow> ''Medical Knowledge: '' @ field_or rt fs ''title'' [] @ ''\<newline>''
                  @ field_or rt fs ''description'' [] @ ''\<newline>\<newline>'')"

subsection \<open>Concrete inputs for the examples\<close>

definition example_runtime :: py_runtime where
  "example_runtime = \<lparr>str_json = (\<lambda>v. ''<json>''), str_builtin = (\<lambda>e. ''<exception>'')\<rparr>"

definition new_session :: session_state where
  "new_session = initialize_session_state None"

definition seven_results :: json where
  "seven_results = JObj [(''organic'',
     JArr [JObj [(''title'', JStr ''r1'')], JObj [(''title'', JStr ''r2'')],
           JObj [(''title'', JStr ''r3'')], JObj [(''title'', JStr ''r4'')],
           JObj [(''title'', JStr ''r5'')], JObj [(''title'', JStr ''r6'')],
           JObj [(''title'', JStr ''r7'')]])]"

definition seven_results_text :: string where
  "seven_results_text = ''Medical Search Results:\<newline>\<newline>1. r1\<newline>   URL: No link\<newline>   Description: No description\<newline>\<newline>2. r2\<newline>   URL: No link\<newline>   Description: No description\<newline>\<newline>3. r3\<newline>   URL: No link\<newline>   Description: No description\<newline>\<newline>4. r4\<newline>   URL: No link\<newline>   Description: No description\<newline>\<newline>5. r5\<newline>   URL: No link\<newline>   Description: No description\<newline>\<newline>''"

definition migraine_results :: "(string \<times> json) list" where
  "migraine_results =
     [(''organic'', JArr [JObj [(''title'', JStr ''Migraine - Mayo Clinic'')]]),
      (''knowledgeGraph'', JObj [(''title'', JStr ''Migraine'')])]"

subsection \<open>Reading the guidelines off the preamble\<close>

text \<open>
  The preamble lists its guidelines one per line, each starting with its number and a dot.
  \<open>guidelines\<close> reads them off a text: the lines, without their indentation, that start so.
\<close>

fun lines_from :: "string \<Rightarrow> string \<Rightarrow> string list" where
  "lines_from line [] = [line]"
| "lines_from line (c # cs) =
     (if c = CHR ''\<newline>'' then line # lines_from [] cs else lines_from (line @ [c]) cs)"

definition split_lines :: "string \<Rightarrow> string list" where
  "split_lines text = lines_from [] text"

definition lstrip :: "string \<Rightarrow> string" where
  "lstrip l = dropWhile (\<lambda>c. c = CHR '' '') l"

definition is_numbered :: "string \<Rightarrow> bool" where
  "is_numbered l = (case l of d # p # rest \<Rightarrow> d \<in> set ''0123456789'' \<and> p = CHR ''.'' | _ \<Rightarrow> False)"

definition guidelines :: "string \<Rightarrow> string list" where
  "guidelines context = filter is_numbered (map lstrip (split_lines context))"

subsection \<open>Display history against model context\<close>

text \<open>
  \<open>paired_context\<close> is the model context the display history would determine if every
  display pair had its model pair: the display messages after the greeting, two by two.
\<close>

fun paired_context :: "message list \<Rightarrow> model_turn list" where
  "paired_context (u # a # rest) = (''user'', [snd u]) # (''model'', [snd a]) # paired_context rest"
| "paired_context rest = []"

text \<open>
  An exchange is a user query with what came of it: \<open>Inr reply\<close> when the turn completed
  (nothing raised: the search result, if a search was made, could be formatted, and the LLM
  call returned a text), \<open>Inl text\<close> when it ended in the error string \<open>text\<close>. Whether an
  exchange completed is a matter of what happened in the turn, not of how the answer reads:
  a reply may itself start with \<^verbatim>\<open>An error occurred:\<close>.
\<close>

type_synonym exchange = "string \<times> (string + string)"

text \<open>The search block of a run, from what the transport yields.\<close>

definition search_block :: "py_runtime \<Rightarrow> search_outcome \<Rightarrow> py_exn + string" where
  "search_block rt net =
     format_search_results rt (case net of Inr body \<Rightarrow> body | Inl e \<Rightarrow> JObj [(''error'', JStr e)])"

fun llm_reply :: "llm_outcome \<Rightarrow> string + string" where
  "llm_reply (Text reply) = Inr reply"
| "llm_reply (SendRaises m) = Inl (error_reply m)"
| "llm_reply (TextRaises m) = Inl (error_reply m)"

text \<open>What comes of the turn of a run: with the search enabled, the formatter must not
  raise; then the LLM decides.\<close>

definition turn_reply :: "py_runtime \<Rightarrow> script_run \<Rightarrow> string + string" where
  "turn_reply rt r =
     (if search_toggle r
      then (case search_block rt (net_outcome r) of
              Inl e \<Rightarrow> Inl (error_reply (str_exn rt e))
            | Inr block \<Rightarrow> llm_reply (llm_result r))
      else llm_reply (llm_result r))"

text \<open>A run adds an exchange when a non-empty chat input was submitted.\<close>

definition run_exchanges :: "py_runtime \<Rightarrow> script_run \<Rightarrow> exchange list" where
  "run_exchanges rt r =
     (case chat_input r of
        None \<Rightarrow> []
      | Some p \<Rightarrow> if p = [] then [] else [(p, turn_reply rt r)])"

text \<open>The exchanges of the current conversation: those since the last click on the clear
  button, in order.\<close>

definition conversation :: "py_runtime \<Rightarrow> script_run list \<Rightarrow> exchange list" where
  "conversation rt runs =
     foldl (\<lambda>xs r. (if clear_button r then [] else xs) @ run_exchanges rt r) [] runs"

fun completed :: "exchange \<Rightarrow> bool" where
  "completed (p, Inr reply) = True"
| "completed (p, Inl e) = False"

fun shown :: "exchange \<Rightarrow> string" where
  "shown (p, Inr reply) = reply"
| "shown (p, Inl e) = e"

text \<open>The two display messages of an exchange, and its pair in the model context: a
  completed exchange has one, an exchange that ended in an error has none.\<close>

fun display_pair :: "exchange \<Rightarrow> message list" where
  "display_pair (p, a) = [(''user'', p), (''assistant'', shown (p, a))]"

fun context_pair :: "exchange \<Rightarrow> model_turn list" where
  "context_pair (p, Inr reply) = [(''user'', [p]), (''model'', [reply])]"
| "context_pair (p, Inl e) = []"

text \<open>Three runs: a question whose LLM call fails, one that is answered, and one whose
  answer reads like the error string of the first.\<close>

definition failed_run :: script_run where
  "failed_run = \<lparr>search_toggle = False, clear_button = False, chat_input = Some ''hi'',
                  net_outcome = Inr JNull, llm_result = SendRaises ''down''\<rparr>"

definition answered_run :: script_run where
  "answered_run = \<lparr>search_toggle = False, clear_button = False, chat_input = Some ''again'',
                    net_outcome = Inr JNull, llm_result = Text ''ok''\<rparr>"

definition echo_run :: script_run where
  "echo_run = \<lparr>search_toggle = False, clear_button = False, chat_input = Some ''why'',
                net_outcome = Inr JNull, llm_result = Text ''An error occurred: down''\<rparr>"


section \<open>Properties\<close>

subsection \<open>Basic facts about the Python operations\<close>

lemma py_in_JObj: "py_in k (JObj kvs) = Inr (map_of kvs k \<noteq> None)"
  by (simp add: map_of_eq_None_iff)

lemmas py_in_other = py_in.simps(2-)

declare py_in.simps [simp del]
declare py_in_other [simp]
declare py_in_JObj [simp]

subsection \<open>One LLM call\<close>

lemma generate_messages: "messages (snd (generate llm prompt fp s)) = messages s"
  by (cases llm) (simp_all add: generate_def Let_def)

lemma generate_search_calls: "search_calls (snd (generate llm prompt fp s)) = search_calls s"
  by (cases llm) (simp_all add: generate_def Let_def)

lemma generate_llm_calls:
  "llm_calls (snd (generate llm prompt fp s)) = llm_calls s @ [(chat_history s, fp)]"
  by (cases llm) (simp_all add: generate_def Let_def)

lemma generate_fst:
  "fst (generate llm prompt fp s) =
     (case llm of SendRaises m \<Rightarrow> error_reply m | TextRaises m \<Rightarrow> error_reply m | Text t \<Rightarrow> t)"
  by (cases llm) (simp_all add: generate_def Let_def)

lemma generate_chat_history:
  "chat_history (snd (generate llm prompt fp s)) =
     chat_history s @
       (case llm of
          SendRaises m \<Rightarrow> []
        | TextRaises m \<Rightarrow> [(''user'', [prompt])]
        | Text t \<Rightarrow> [(''user'', [prompt]), (''model'', [t])])"
  by (cases llm) (simp_all add: generate_def Let_def)

lemma get_gemini_response_plain:
  "query = None \<or> query = Some [] \<or> \<not> with_search \<Longrightarrow>
   get_gemini_response rt net llm prompt with_search query s
     = generate llm prompt (plain_prompt medical_context prompt) s"
  by (auto simp: get_gemini_response_def split: option.splits)

text \<open>The three ways through \<^verbatim>\<open>get_gemini_response\<close>: no search; a search whose result the
  formatter cannot read; a search with a formatted block.\<close>

lemma turn_cases [case_names plain raised search]:
  obtains
    "get_gemini_response rt net llm prompt with_search query s
       = generate llm prompt (plain_prompt medical_context prompt) s"
  | q e where
    "get_gemini_response rt net llm prompt with_search query s
       = (error_reply (str_exn rt e),
          s\<lparr>search_calls := search_calls s @ [(q @ '' medical information'', 5)]\<rparr>)"
  | q block where
    "get_gemini_response rt net llm prompt with_search query s
       = generate llm prompt (search_prompt medical_context prompt block)
           (s\<lparr>search_calls := search_calls s @ [(q @ '' medical information'', 5)]\<rparr>)"
proof (cases "query = None \<or> query = Some [] \<or> \<not> with_search")
  case True
  then show ?thesis using that(1) by (simp add: get_gemini_response_plain)
next
  case False
  then obtain q where q: "query = Some q" "q \<noteq> []" "with_search" by auto
  let ?s1 = "s\<lparr>search_calls := search_calls s @ [(q @ '' medical information'', 5)]\<rparr>"
  obtain results where results: "search_web net q s = (results, ?s1)"
    by (cases net) (simp_all add: search_web_def Let_def)
  show ?thesis
  proof (cases "format_search_results rt results")
    case (Inl e)
    with q results show ?thesis using that(2) [of e q]
      by (simp add: get_gemini_response_def)
  next
    case (Inr block)
    with q results show ?thesis using that(3) [of block q]
      by (simp add: get_gemini_response_def)
  qed
qed

subsection \<open>Search needs the flag and a query\<close>

text \<open>
  Claim C10. When \<^verbatim>\<open>with_search\<close> is set but \<^verbatim>\<open>query\<close> is \<^verbatim>\<open>None\<close> or the empty string
  (and likewise when the flag is not set), the turn posts nothing to the search provider,
  and the one text it sends to the LLM is the plain template around the prompt: a search
  needs both the flag and a non-empty query.
\<close>

theorem no_search_without_query:
  assumes "\<not> with_search \<or> query = None \<or> query = Some []"
  shows "search_calls (snd (get_gemini_response rt net llm prompt with_search query s))
           = search_calls s
       \<and> llm_calls (snd (get_gemini_response rt net llm prompt with_search query s))
           = llm_calls s @ [(chat_history s, plain_prompt medical_context prompt)]"
proof -
  from assms have "get_gemini_response rt net llm prompt with_search query s
      = generate llm prompt (plain_prompt medical_context prompt) s"
    by (intro get_gemini_response_plain) blast
  then show ?thesis
    by (simp add: generate_search_calls generate_llm_calls)
qed

theorem no_search_without_query_witness:
  "Some [] = Some ([] :: string)
   \<and> search_calls (snd (get_gemini_response example_runtime
          (Inr (JObj [])) (Text ''ok'') ''hi'' True (Some []) new_session))
       = search_calls new_session
   \<and> llm_calls (snd (get_gemini_response example_runtime
          (Inr (JObj [])) (Text ''ok'') ''hi'' True (Some []) new_session))
       = llm_calls new_session @ [(chat_history new_session, plain_prompt medical_context ''hi'')]"
  using no_search_without_query [of True "Some []" example_runtime "Inr (JObj [])" "Text ''ok''"
      "''hi''" new_session]
  by simp

subsection \<open>Clearing the history\<close>

text \<open>
  Claim C9. A run of the script in which the clear button was clicked (and no chat input
  was submitted, as in every run a click starts) leaves the model context empty and the
  display history equal to the one greeting message, whatever the session held before.
\<close>

theorem clear_history_resets:
  assumes "clear_button r" and "chat_input r = None \<or> chat_input r = Some []"
  shows "messages (main rt s r) = [(''assistant'', greeting)] \<and> chat_history (main rt s r) = []"
  using assms by (auto simp: main_def Let_def)

theorem clear_history_resets_witness:
  "clear_button \<lparr>search_toggle = False, clear_button = True, chat_input = None,
                  net_outcome = Inr JNull, llm_result = Text ''unused''\<rparr>
   \<and> messages (main example_runtime
        (new_session\<lparr>messages := [(''assistant'', greeting), (''user'', ''q''), (''assistant'', ''a'')],
                      chat_history := [(''user'', [''q'']), (''model'', [''a''])]\<rparr>)
        \<lparr>search_toggle = False, clear_button = True, chat_input = None,
           net_outcome = Inr JNull, llm_result = Text ''unused''\<rparr>)
       = [(''assistant'', greeting)]
   \<and> chat_history (main example_runtime
        (new_session\<lparr>messages := [(''assistant'', greeting), (''user'', ''q''), (''assistant'', ''a'')],
                      chat_history := [(''user'', [''q'']), (''model'', [''a''])]\<rparr>)
        \<lparr>search_toggle = False, clear_button = True, chat_input = None,
           net_outcome = Inr JNull, llm_result = Text ''unused''\<rparr>)
       = []"
  using clear_history_resets [of
      "\<lparr>search_toggle = False, clear_button = True, chat_input = None,
         net_outcome = Inr JNull, llm_result = Text ''unused''\<rparr>"
      example_runtime
      "new_session\<lparr>messages := [(''assistant'', greeting), (''user'', ''q''), (''assistant'', ''a'')],
                    chat_history := [(''user'', [''q'']), (''model'', [''a''])]\<rparr>"]
  by simp

subsection \<open>The formatter\<close>

lemma organic_loop_entries:
  "organic_loop rt i xs acc = Inr out \<Longrightarrow>
   \<exists>es. length es = length xs \<and> out = acc @ concat es
      \<and> (\<forall>k<length xs. organic_entry rt (i + k) (xs ! k) = Inr (es ! k))"
proof (induction xs arbitrary: i acc out)
  case Nil
  then show ?case by simp
next
  case (Cons x xs)
  from Cons.prems obtain e where e: "organic_entry rt i x = Inr e"
    and rest: "organic_loop rt (Suc i) xs (acc @ e) = Inr out"
    by (auto split: sum.splits)
  from Cons.IH [OF rest] obtain es where es: "length es = length xs"
    "out = (acc @ e) @ concat es"
    "\<forall>k<length xs. organic_entry rt (Suc i + k) (xs ! k) = Inr (es ! k)"
    by blast
  have "\<forall>k<length (x # xs). organic_entry rt (i + k) ((x # xs) ! k) = Inr ((e # es) ! k)"
  proof (intro allI impI)
    fix k assume "k < length (x # xs)"
    then show "organic_entry rt (i + k) ((x # xs) ! k) = Inr ((e # es) ! k)"
      using e es(3) by (cases k) auto
  qed
  with es(1,2) show ?case
    by (intro exI [of _ "e # es"]) simp
qed

lemma add_organic_entries:
  assumes "add_organic rt results acc = Inr out"
  shows "\<exists>es. length es \<le> 5 \<and> out = acc @ concat es
      \<and> (\<forall>xs. py_getitem results ''organic'' = Inr (JArr xs) \<longrightarrow>
             length es = min 5 (length xs)
           \<and> (\<forall>i<length es. organic_entry rt (Suc i) (xs ! i) = Inr (es ! i)))"
proof (cases "py_in ''organic'' results")
  case (Inl e)
  with assms show ?thesis by (simp add: add_organic_def)
next
  case (Inr b)
  show ?thesis
  proof (cases b)
    case False
    with Inr assms have out: "out = acc" by (simp add: add_organic_def)
    have "py_getitem results ''organic'' \<noteq> Inr (JArr xs)" for xs
      using Inr False by (cases results) (auto split: option.splits)
    with out show ?thesis by (intro exI [of _ "[]"]) simp
  next
    case True
    with Inr assms obtain organic first where
      org: "py_getitem results ''organic'' = Inr organic"
      and first: "py_slice_to 5 organic = Inr first"
      and loop: "organic_loop rt 1 first acc = Inr out"
      by (auto simp: add_organic_def split: sum.splits)
    from organic_loop_entries [OF loop] obtain es where es:
      "length es = length first" "out = acc @ concat es"
      "\<forall>k<length first. organic_entry rt (1 + k) (first ! k) = Inr (es ! k)"
      by blast
    have len: "length first \<le> 5"
      using first by (cases organic) auto
    have "length es = min 5 (length xs)
           \<and> (\<forall>i<length es. organic_entry rt (Suc i) (xs ! i) = Inr (es ! i))"
      if "py_getitem results ''organic'' = Inr (JArr xs)" for xs
    proof -
      from that org have "organic = JArr xs" by simp
      with first have "first = take 5 xs" by simp
      with es(1,3) show ?thesis by (auto simp: min.commute)
    qed
    with es(1,2) len show ?thesis by (intro exI [of _ es]) auto
  qed
qed

lemma add_answer_box_acc:
  "add_answer_box rt results acc = map_sum id ((@) acc) (add_answer_box rt results [])"
  by (simp add: add_answer_box_def split: sum.splits bool.splits)

lemma add_knowledge_graph_acc:
  "add_knowledge_graph rt results acc = map_sum id ((@) acc) (add_knowledge_graph rt results [])"
  by (simp add: add_knowledge_graph_def split: sum.splits bool.splits)

lemma add_blocks_tail:
  assumes "add_answer_box rt results f1 = Inr f2" and "add_knowledge_graph rt results f2 = Inr out"
  shows "\<exists>a k. add_answer_box rt results [] = Inr a \<and> add_knowledge_graph rt results [] = Inr k
           \<and> out = f1 @ a @ k"
proof -
  from assms(1) obtain a where a: "add_answer_box rt results [] = Inr a" "f2 = f1 @ a"
    by (subst (asm) add_answer_box_acc) (cases "add_answer_box rt results []", auto)
  from assms(2) obtain k where k: "add_knowledge_graph rt results [] = Inr k" "out = f2 @ k"
    by (subst (asm) add_knowledge_graph_acc) (cases "add_knowledge_graph rt results []", auto)
  from a k show ?thesis by simp
qed

text \<open>
  Claim C6. Whenever the formatter returns a text, it is either the one error line, or the
  header followed by at most five entries, then the answer-box and knowledge-graph blocks
  (which hold no entry). When \<^verbatim>\<open>results["organic"]\<close> is a list \<open>xs\<close>, the entries are
  \<open>min 5 (length xs)\<close> many, entry \<open>i\<close> (from 0) is the rendering of \<open>xs ! i\<close> under the number
  \<open>i + 1\<close>; items past the fifth are not in the output.
\<close>

theorem at_most_five_organic_entries:
  assumes "format_search_results rt results = Inr out"
  shows "(\<exists>err. py_in ''error'' results = Inr True \<and> py_getitem results ''error'' = Inr err
            \<and> out = ''Error performing search: '' @ py_str rt err)
       \<or> (\<exists>es a k. py_in ''error'' results = Inr False
            \<and> out = results_header @ concat es @ a @ k
            \<and> length es \<le> 5
            \<and> (\<forall>xs. py_getitem results ''organic'' = Inr (JArr xs) \<longrightarrow>
                  length es = min 5 (length xs)
                \<and> (\<forall>i<length es. organic_entry rt (Suc i) (xs ! i) = Inr (es ! i)))
            \<and> add_answer_box rt results [] = Inr a
            \<and> add_knowledge_graph rt results [] = Inr k)"
proof (cases "py_in ''error'' results")
  case (Inl e)
  with assms show ?thesis by (simp add: format_search_results_def)
next
  case (Inr b)
  show ?thesis
  proof (cases b)
    case True
    with Inr assms show ?thesis
      by (auto simp: format_search_results_def split: sum.splits)
  next
    case False
    with Inr assms obtain f1 f2 where
      f1: "add_organic rt results results_header = Inr f1"
      and f2: "add_answer_box rt results f1 = Inr f2"
      and f3: "add_knowledge_graph rt results f2 = Inr out"
      by (auto simp: format_search_results_def split: sum.splits)
    from add_organic_entries [OF f1] obtain es where es:
      "length es \<le> 5" "f1 = results_header @ concat es"
      "\<forall>xs. py_getitem results ''organic'' = Inr (JArr xs) \<longrightarrow>
             length es = min 5 (length xs)
           \<and> (\<forall>i<length es. organic_entry rt (Suc i) (xs ! i) = Inr (es ! i))"
      by blast
    from add_blocks_tail [OF f2 f3] obtain a k where ak:
      "add_answer_box rt results [] = Inr a" "add_knowledge_graph rt results [] = Inr k"
      "out = f1 @ a @ k" by blast
    from Inr False es ak show ?thesis by auto
  qed
qed


lemma str_nat_small: "n < 10 \<Longrightarrow> str_nat n = [''0123456789'' ! n]"
  by (simp add: str_nat.simps)

theorem at_most_five_organic_entries_witness:
  "format_search_results example_runtime seven_results = Inr seven_results_text
   \<and> (\<exists>es a k. seven_results_text = results_header @ concat es @ a @ k \<and> length es = 5)"
proof -
  have h: "format_search_results example_runtime seven_results = Inr seven_results_text"
    by (simp add: format_search_results_def add_organic_def add_answer_box_def
          add_knowledge_graph_def organic_entry_def results_header_def seven_results_def
          seven_results_text_def str_nat_small)
  have e: "py_in ''error'' seven_results = Inr False"
    and o: "\<exists>xs. py_getitem seven_results ''organic'' = Inr (JArr xs) \<and> length xs = 7"
    by (simp_all add: seven_results_def)
  from at_most_five_organic_entries [OF h] e o show ?thesis
    using h by fastforce
qed

lemma organic_entry_JObj: "organic_entry rt i (JObj fs) = Inr (entry_text rt (i, fs))"
  by (simp add: organic_entry_def entry_text_def field_or_def split: option.splits)

lemma organic_loop_JObj:
  "organic_loop rt i (map JObj items) acc
     = Inr (acc @ concat (map (entry_text rt) (zip [i..<i + length items] items)))"
proof (induction items arbitrary: i acc)
  case Nil
  then show ?case by simp
next
  case (Cons fs items)
  have "[i..<i + length (fs # items)] = i # [Suc i..<Suc i + length items]"
    by (simp add: upt_rec)
  then show ?case by (simp add: organic_entry_JObj Cons.IH)
qed

lemma zip_first_five: "zip [1..<1 + length (take 5 items)] (take 5 items) = zip [1..<6] items"
proof (rule nth_equalityI)
  show "length (zip [1..<1 + length (take 5 items)] (take 5 items)) = length (zip [1..<6] items)"
    by (simp del: upt_Suc)
next
  fix i
  assume "i < length (zip [1..<1 + length (take 5 items)] (take 5 items))"
  then have "i < 5" and "i < length items"
    by (simp_all del: upt_Suc)
  then show "zip [1..<1 + length (take 5 items)] (take 5 items) ! i = zip [1..<6] items ! i"
    by (simp del: upt_Suc)
qed

lemma add_organic_JObj:
  assumes "map_of kvs ''organic'' = map_option (\<lambda>items. JArr (map JObj items)) organic"
  shows "add_organic rt (JObj kvs) acc = Inr (acc @ organic_block rt organic)"
proof (cases organic)
  case None
  with assms show ?thesis by (simp add: add_organic_def organic_block_def)
next
  case (Some items)
  have "organic_loop rt 1 (take 5 (map JObj items)) acc
          = Inr (acc @ concat (map (entry_text rt) (zip [1..<6] items)))"
    using organic_loop_JObj [of rt 1 "take 5 items" acc]
    by (simp only: take_map zip_first_five)
  with assms Some show ?thesis
    by (simp add: add_organic_def organic_block_def)
qed

lemma add_answer_box_JObj:
  assumes "map_of kvs ''answerBox'' = map_option JObj answer_box"
  shows "add_answer_box rt (JObj kvs) acc = Inr (acc @ answer_block rt answer_box)"
  using assms
  by (cases answer_box)
     (simp_all add: add_answer_box_def answer_block_def field_or_def split: option.splits)

lemma add_knowledge_graph_JObj:
  assumes "map_of kvs ''knowledgeGraph'' = map_option JObj kg"
  shows "add_knowledge_graph rt (JObj kvs) acc = Inr (acc @ knowledge_block rt kg)"
  using assms
  by (cases kg)
     (simp_all add: add_knowledge_graph_def knowledge_block_def field_or_def split: option.splits)

text \<open>
  Claim C7, as amended. For a dict without an \<^verbatim>\<open>error\<close> key whose sections are well-shaped,
  the output is the header, then the organic entries, then the answer-box block, then the
  knowledge-graph block, each present when its key is. A missing \<^verbatim>\<open>title\<close>, \<^verbatim>\<open>link\<close> or
  \<^verbatim>\<open>snippet\<close> of an organic entry is rendered as \<^verbatim>\<open>No title\<close>, \<^verbatim>\<open>No link\<close>,
  \<^verbatim>\<open>No description\<close>; a missing sub-field of the answer box or of the knowledge graph is
  rendered as the empty string.
\<close>

theorem format_sections_in_order:
  assumes "map_of kvs ''error'' = None"
    and "map_of kvs ''organic'' = map_option (\<lambda>items. JArr (map JObj items)) organic"
    and "map_of kvs ''answerBox'' = map_option JObj answer_box"
    and "map_of kvs ''knowledgeGraph'' = map_option JObj kg"
  shows "format_search_results rt (JObj kvs)
           = Inr (results_header @ organic_block rt organic @ answer_block rt answer_box
                  @ knowledge_block rt kg)"
  using assms(1)
  by (simp add: format_search_results_def add_organic_JObj [OF assms(2)]
        add_answer_box_JObj [OF assms(3)] add_knowledge_graph_JObj [OF assms(4)])



text \<open>
  Claim C7 as stated fails: with an empty answer box and an empty knowledge graph, nothing
  stands where \<^verbatim>\<open>title\<close>, \<^verbatim>\<open>answer\<close>, \<^verbatim>\<open>snippet\<close> and \<^verbatim>\<open>description\<close> would be.
\<close>

theorem missing_answer_fields_counterexample:
  "format_search_results example_runtime
     (JObj [(''answerBox'', JObj []), (''knowledgeGraph'', JObj [])])
   = Inr (''Medical Search Results:\<newline>\<newline>''
          @ ''Featured Medical Answer: '' @ [] @ ''\<newline>'' @ [] @ ''\<newline>'' @ [] @ ''\<newline>\<newline>''
          @ ''Medical Knowledge: '' @ [] @ ''\<newline>'' @ [] @ ''\<newline>\<newline>'')"
  by (simp add: format_search_results_def add_organic_def add_answer_box_def
        add_knowledge_graph_def results_header_def)

theorem format_sections_in_order_witness:
  "map_of migraine_results ''error'' = None
   \<and> map_of migraine_results ''organic''
       = map_option (\<lambda>items. JArr (map JObj items)) (Some [[(''title'', JStr ''Migraine - Mayo Clinic'')]])
   \<and> map_of migraine_results ''answerBox'' = map_option JObj None
   \<and> map_of migraine_results ''knowledgeGraph'' = map_option JObj (Some [(''title'', JStr ''Migraine'')])
   \<and> format_search_results example_runtime (JObj migraine_results)
       = Inr ''Medical Search Results:\<newline>\<newline>1. Migraine - Mayo Clinic\<newline>   URL: No link\<newline>   Description: No description\<newline>\<newline>Medical Knowledge: Migraine\<newline>\<newline>\<newline>''"
  using format_sections_in_order [of migraine_results
      "Some [[(''title'', JStr ''Migraine - Mayo Clinic'')]]" None
      "Some [(''title'', JStr ''Migraine'')]" example_runtime]
  by (simp add: migraine_results_def results_header_def organic_block_def answer_block_def
        knowledge_block_def entry_text_def field_or_def upt_rec str_nat_small)

subsection \<open>Failures of the two services\<close>








text \<open>
  Claim C3 says that a failed LLM call leaves the model context as it was. The turn below
  fails (the \<^verbatim>\<open>text\<close> accessor of the response raises) and returns the error string, but
  the user entry appended on line 149 stays in the model context.
\<close>

theorem text_accessor_failure_grows_history:
  "fst (get_gemini_response example_runtime (Inr JNull) (TextRaises ''no valid Part'') ''hi''
          False None new_session) = ''An error occurred: no valid Part''
   \<and> chat_history new_session = []
   \<and> chat_history (snd (get_gemini_response example_runtime (Inr JNull)
          (TextRaises ''no valid Part'') ''hi'' False None new_session)) = [(''user'', [''hi''])]"
  by (simp add: get_gemini_response_plain generate_fst generate_chat_history error_reply_def
        new_session_def initialize_session_state_def)

text \<open>When \<^verbatim>\<open>send_message\<close> itself raises, the model context is unchanged.\<close>

lemma send_failure_keeps_history:
  "chat_history (snd (get_gemini_response rt net (SendRaises m) prompt with_search query s))
     = chat_history s"
  by (auto simp: get_gemini_response_def search_web_def Let_def generate_chat_history
      split: option.splits sum.splits prod.splits)

subsection \<open>The phrase ``Medical Search Results'' in the prompt\<close>














subsection \<open>The policy preamble\<close>

lemma guidelines_medical_context: "guidelines medical_context =
  [''1. Always clarify that you're an AI and not a doctor'',
   ''2. Recommend consulting healthcare professionals for diagnosis and treatment'',
   ''3. Provide factual, evidence-based information'',
   ''4. Be empathetic and supportive in your tone'',
   ''5. Never make definitive diagnoses'',
   ''6. Emphasize the importance of seeking proper medical care'',
   ''7. Use clear, understandable language without excessive medical jargon'']"
  by code_simp


lemma turn_llm_calls:
  "llm_calls (snd (get_gemini_response rt net llm prompt with_search query s)) = llm_calls s
   \<or> (\<exists>rest. llm_calls (snd (get_gemini_response rt net llm prompt with_search query s))
         = llm_calls s @ [(chat_history s, ''\<newline>            '' @ medical_context
              @ ''\<newline>            \<newline>            The user query is: '' @ prompt @ rest)])"
proof (cases rule: turn_cases [where rt = rt and net = net and llm = llm and prompt = prompt
      and with_search = with_search and query = query and s = s])
  case plain
  then show ?thesis
    by (simp add: generate_llm_calls plain_prompt_def)
next
  case (raised q e)
  then show ?thesis by simp
next
  case (search q block)
  then show ?thesis
    by (simp add: generate_llm_calls search_prompt_def)
qed

text \<open>
  Claim C8, as amended. The preamble is one constant with seven numbered guidelines: the
  five the claim names (1, 2, 5, 3 and 7) and two more, to be empathetic and supportive (4)
  and to emphasize the importance of seeking proper medical care (6). Every text a turn
  sends to the LLM starts with the preamble, followed by the user query line.
\<close>

theorem preamble_has_seven_guidelines:
  "guidelines medical_context =
     [''1. Always clarify that you're an AI and not a doctor'',
      ''2. Recommend consulting healthcare professionals for diagnosis and treatment'',
      ''3. Provide factual, evidence-based information'',
      ''4. Be empathetic and supportive in your tone'',
      ''5. Never make definitive diagnoses'',
      ''6. Emphasize the importance of seeking proper medical care'',
      ''7. Use clear, understandable language without excessive medical jargon'']
   \<and> (llm_calls (snd (get_gemini_response rt net llm prompt with_search query s)) = llm_calls s
      \<or> (\<exists>rest. llm_calls (snd (get_gemini_response rt net llm prompt with_search query s))
            = llm_calls s @ [(chat_history s, ''\<newline>            '' @ medical_context
                 @ ''\<newline>            \<newline>            The user query is: '' @ prompt @ rest)]))"
  using guidelines_medical_context turn_llm_calls by blast

text \<open>Claim C8 as stated fails: the guidelines are not five, and guidelines 4 and 6 are
  none of the five constraints the claim lists.\<close>

theorem five_guidelines_counterexample:
  "length (guidelines medical_context) \<noteq> 5
   \<and> ''4. Be empathetic and supportive in your tone'' \<in> set (guidelines medical_context)
   \<and> ''6. Emphasize the importance of seeking proper medical care''
       \<in> set (guidelines medical_context)"
  by (simp add: guidelines_medical_context)

subsection \<open>The model context over turns and runs\<close>

lemma plain_prompt_longer: "length prompt < length (plain_prompt context prompt)"
  by (simp add: plain_prompt_def)

lemma search_prompt_longer: "length prompt < length (search_prompt context prompt block)"
  by (simp add: search_prompt_def)

text \<open>
  Claim C1, as amended. In a turn in which the LLM is called and answers, the provider is
  given the stored model context as it is (in order, nothing dropped) and the full prompt,
  one of the two templates around the user query; the turn then appends the user entry,
  which holds the user query itself and not the full prompt that was sent, and the model
  entry with the reply, in this order, after the entries already there.
\<close>

theorem completed_turn_extends_context:
  assumes "get_gemini_response rt net (Text reply) prompt with_search query s = (r, s')"
    and "llm_calls s' \<noteq> llm_calls s"
  shows "\<exists>full_prompt.
           llm_calls s' = llm_calls s @ [(chat_history s, full_prompt)]
         \<and> (full_prompt = plain_prompt medical_context prompt
            \<or> (\<exists>block. full_prompt = search_prompt medical_context prompt block))
         \<and> full_prompt \<noteq> prompt
         \<and> chat_history s' = chat_history s @ [(''user'', [prompt]), (''model'', [reply])]
         \<and> r = reply"
proof (cases rule: turn_cases [where rt = rt and net = net and llm = "Text reply"
      and prompt = prompt and with_search = with_search and query = query and s = s])
  case plain
  with assms(1)
  have eq: "generate (Text reply) prompt (plain_prompt medical_context prompt) s = (r, s')"
    by simp
  have "s' = snd (generate (Text reply) prompt (plain_prompt medical_context prompt) s)"
    and "r = fst (generate (Text reply) prompt (plain_prompt medical_context prompt) s)"
    by (simp_all only: eq fst_conv snd_conv)
  then show ?thesis
    using plain_prompt_longer [of prompt medical_context]
    by (intro exI [of _ "plain_prompt medical_context prompt"])
       (auto simp: generate_llm_calls generate_chat_history generate_fst)
next
  case (raised q e)
  with assms show ?thesis by auto
next
  case (search q block)
  let ?s1 = "s\<lparr>search_calls := search_calls s @ [(q @ '' medical information'', 5)]\<rparr>"
  from search assms(1)
  have eq: "generate (Text reply) prompt (search_prompt medical_context prompt block) ?s1 = (r, s')"
    by simp
  have "s' = snd (generate (Text reply) prompt (search_prompt medical_context prompt block) ?s1)"
    and "r = fst (generate (Text reply) prompt (search_prompt medical_context prompt block) ?s1)"
    by (simp_all only: eq fst_conv snd_conv)
  then show ?thesis
    using search_prompt_longer [of prompt medical_context block]
    by (intro exI [of _ "search_prompt medical_context prompt block"])
       (auto simp: generate_llm_calls generate_chat_history generate_fst)
qed


theorem completed_turn_extends_context_witness:
  "get_gemini_response example_runtime (Inr JNull) (Text ''ok'') ''hi'' False None new_session
     = (''ok'', snd (get_gemini_response example_runtime (Inr JNull) (Text ''ok'') ''hi'' False
                      None new_session))
   \<and> llm_calls (snd (get_gemini_response example_runtime (Inr JNull) (Text ''ok'') ''hi'' False
                      None new_session)) \<noteq> llm_calls new_session
   \<and> chat_history (snd (get_gemini_response example_runtime (Inr JNull) (Text ''ok'') ''hi''
                      False None new_session))
       = chat_history new_session @ [(''user'', [''hi'']), (''model'', [''ok''])]"
proof -
  let ?T = "get_gemini_response example_runtime (Inr JNull) (Text ''ok'') ''hi'' False None
              new_session"
  have 1: "?T = (''ok'', snd ?T)"
    by (simp add: get_gemini_response_plain generate_def Let_def)
  have 2: "llm_calls (snd ?T) \<noteq> llm_calls new_session"
    by (simp add: get_gemini_response_plain generate_llm_calls)
  from completed_turn_extends_context [OF 1 2] 1 2 show ?thesis by blast
qed

text \<open>
  Claim C1 as stated fails: the stored user entry is the query \<^verbatim>\<open>hi\<close>, the text sent to the
  provider on that turn is the plain template around it.
\<close>

theorem stored_entry_is_not_sent_text_counterexample:
  "llm_calls (snd (get_gemini_response example_runtime (Inr JNull) (Text ''ok'') ''hi'' False
                     None new_session))
     = [([], plain_prompt medical_context ''hi'')]
   \<and> chat_history (snd (get_gemini_response example_runtime (Inr JNull) (Text ''ok'') ''hi''
                     False None new_session))
     = [(''user'', [''hi'']), (''model'', [''ok''])]
   \<and> plain_prompt medical_context ''hi'' \<noteq> ''hi''"
  using plain_prompt_longer [of "''hi''" medical_context]
  by (auto simp: get_gemini_response_plain generate_llm_calls generate_chat_history
        new_session_def initialize_session_state_def)

lemma turn_of_run:
  assumes "\<forall>m. llm_result r \<noteq> TextRaises m" and "p \<noteq> []"
  shows "fst (get_gemini_response rt (net_outcome r) (llm_result r) p (search_toggle r)
               (if search_toggle r then Some p else None) s) = shown (p, turn_reply rt r)"
    and "chat_history (snd (get_gemini_response rt (net_outcome r) (llm_result r) p (search_toggle r)
               (if search_toggle r then Some p else None) s))
           = chat_history s @ context_pair (p, turn_reply rt r)"
    and "messages (snd (get_gemini_response rt (net_outcome r) (llm_result r) p (search_toggle r)
               (if search_toggle r then Some p else None) s)) = messages s"
  using assms
  by (cases "llm_result r"; cases "net_outcome r";
      auto simp: get_gemini_response_def search_web_def Let_def turn_reply_def search_block_def
        generate_fst generate_chat_history generate_messages split: sum.splits)+

lemma failed_shows_error: "\<not> completed (p, turn_reply rt r) \<Longrightarrow>
    prefix ''An error occurred: '' (shown (p, turn_reply rt r))"
  by (cases "llm_result r")
     (auto simp: turn_reply_def error_reply_def split: if_splits sum.splits)

lemma length_context: "length (concat (map context_pair xs)) = 2 * length (filter completed xs)"
proof (induction xs)
  case Nil
  then show ?case by simp
next
  case (Cons x xs)
  obtain p a where "x = (p, a)" by (cases x)
  with Cons show ?case by (cases a) simp_all
qed

lemma conversation_snoc:
  "conversation rt (runs @ [r])
     = (if clear_button r then [] else conversation rt runs) @ run_exchanges rt r"
  by (simp add: conversation_def)

lemma main_step:
  assumes ok: "\<forall>m. llm_result r \<noteq> TextRaises m"
    and msgs: "messages s = (if first then [] else (''assistant'', greeting) # concat (map display_pair xs))"
    and hist: "chat_history s = concat (map context_pair xs)"
    and first: "first \<longrightarrow> xs = []"
  shows "messages (main rt s r) = (''assistant'', greeting)
           # concat (map display_pair ((if clear_button r then [] else xs) @ run_exchanges rt r))"
    and "chat_history (main rt s r)
           = concat (map context_pair ((if clear_button r then [] else xs) @ run_exchanges rt r))"
proof -
  define s1 where "s1 = (if search_toggle r \<noteq> search_mode s
                         then s\<lparr>search_mode := search_toggle r\<rparr> else s)"
  define s2 where "s2 = (if clear_button r then s1\<lparr>messages := [], chat_history := []\<rparr> else s1)"
  define s3 where "s3 = (if messages s2 = []
                         then s2\<lparr>messages := messages s2 @ [(''assistant'', greeting)]\<rparr> else s2)"
  let ?xs = "if clear_button r then [] else xs"
  have mode: "search_mode s3 = search_toggle r"
    by (auto simp: s1_def s2_def s3_def)
  have m3: "messages s3 = (''assistant'', greeting) # concat (map display_pair ?xs)"
    using msgs first by (auto simp: s1_def s2_def s3_def)
  have h3: "chat_history s3 = concat (map context_pair ?xs)"
    using hist by (auto simp: s1_def s2_def s3_def)
  show "messages (main rt s r) = (''assistant'', greeting)
           # concat (map display_pair (?xs @ run_exchanges rt r))"
    and "chat_history (main rt s r) = concat (map context_pair (?xs @ run_exchanges rt r))"
  proof (atomize (full), cases "chat_input r = None \<or> chat_input r = Some []")
    case True
    then have "main rt s r = s3" and "run_exchanges rt r = []"
      by (auto simp: main_def Let_def s1_def s2_def s3_def run_exchanges_def)
    with m3 h3 show "messages (main rt s r) = (''assistant'', greeting)
           # concat (map display_pair (?xs @ run_exchanges rt r))
        \<and> chat_history (main rt s r) = concat (map context_pair (?xs @ run_exchanges rt r))"
      by simp
  next
    case False
    then obtain p where p: "chat_input r = Some p" "p \<noteq> []" by auto
    then have ex: "run_exchanges rt r = [(p, turn_reply rt r)]"
      by (simp add: run_exchanges_def)
    define s4 where "s4 = s3\<lparr>messages := messages s3 @ [(''user'', p)]\<rparr>"
    define T where "T = get_gemini_response rt (net_outcome r) (llm_result r) p (search_mode s4)
                          (if search_mode s4 then Some p else None) s4"
    have mode4: "search_mode s4 = search_toggle r" using mode by (simp add: s4_def)
    have m: "main rt s r = (snd T)\<lparr>messages := messages (snd T) @ [(''assistant'', fst T)]\<rparr>"
      using p by (simp add: main_def Let_def s1_def s2_def s3_def s4_def T_def split: prod.splits)
    have T_def': "T = get_gemini_response rt (net_outcome r) (llm_result r) p (search_toggle r)
                          (if search_toggle r then Some p else None) s4"
      unfolding T_def mode4 ..
    from turn_of_run [OF ok p(2), of rt s4]
    have T: "fst T = shown (p, turn_reply rt r)"
      "chat_history (snd T) = chat_history s4 @ context_pair (p, turn_reply rt r)"
      "messages (snd T) = messages s4"
      by (simp_all add: T_def')
    show "messages (main rt s r) = (''assistant'', greeting)
           # concat (map display_pair (?xs @ run_exchanges rt r))
        \<and> chat_history (main rt s r) = concat (map context_pair (?xs @ run_exchanges rt r))"
      using m3 h3 by (simp add: m T ex s4_def)
  qed
qed


lemma session_as_conversation:
  assumes "\<forall>r \<in> set runs. \<forall>m. llm_result r \<noteq> TextRaises m"
  shows "messages (session_after rt runs)
           = (if runs = [] then []
              else (''assistant'', greeting) # concat (map display_pair (conversation rt runs)))
       \<and> chat_history (session_after rt runs) = concat (map context_pair (conversation rt runs))"
  using assms
proof (induction runs rule: rev_induct)
  case Nil
  then show ?case
    by (simp add: session_after_def conversation_def initialize_session_state_def)
next
  case (snoc r runs)
  then have IH: "messages (session_after rt runs)
           = (if runs = [] then []
              else (''assistant'', greeting) # concat (map display_pair (conversation rt runs)))"
    "chat_history (session_after rt runs) = concat (map context_pair (conversation rt runs))"
    by simp_all
  from snoc.prems have ok: "\<forall>m. llm_result r \<noteq> TextRaises m" by simp
  have first: "runs = [] \<longrightarrow> conversation rt runs = []"
    by (simp add: conversation_def)
  have step: "session_after rt (runs @ [r]) = main rt (session_after rt runs) r"
    by (simp add: session_after_def)
  from main_step [OF ok IH first, of rt] show ?case
    by (simp add: step conversation_snoc)
qed

lemma conversation_from_runs:
  "x \<in> set (conversation rt runs) \<Longrightarrow> \<exists>r p. x = (p, turn_reply rt r)"
proof (induction runs arbitrary: x rule: rev_induct)
  case Nil
  then show ?case by (simp add: conversation_def)
next
  case (snoc r runs)
  then show ?case
    by (auto simp: conversation_snoc run_exchanges_def split: if_splits option.splits)
qed

text \<open>
  Claim C2, as amended. After any sequence of runs in which no \<^verbatim>\<open>text\<close> accessor raises, the
  display history is empty (no run yet) or is the greeting followed by the two messages of
  every exchange of the conversation, and the model context is made of the pairs of the
  completed exchanges, and of nothing else, in the same order. So it is twice as long as
  the number of completed exchanges and the greeting is not in it; an exchange that ended
  in an error has no pair in it and shows a string that starts with \<^verbatim>\<open>An error occurred: \<close>.
\<close>

theorem display_and_context_aligned:
  assumes "\<forall>r \<in> set runs. \<forall>m. llm_result r \<noteq> TextRaises m"
  shows "messages (session_after rt runs)
           = (if runs = [] then []
              else (''assistant'', greeting) # concat (map display_pair (conversation rt runs)))
       \<and> chat_history (session_after rt runs) = concat (map context_pair (conversation rt runs))
       \<and> length (chat_history (session_after rt runs))
           = 2 * length (filter completed (conversation rt runs))
       \<and> (\<forall>x \<in> set (conversation rt runs).
             \<not> completed x \<longrightarrow> context_pair x = [] \<and> prefix ''An error occurred: '' (shown x))"
proof -
  have "context_pair x = [] \<and> prefix ''An error occurred: '' (shown x)"
    if "x \<in> set (conversation rt runs)" and "\<not> completed x" for x
  proof -
    from that(1) obtain r p where x: "x = (p, turn_reply rt r)"
      using conversation_from_runs by blast
    with that(2) have "prefix ''An error occurred: '' (shown x)"
      using failed_shows_error by blast
    moreover from that(2) x have "context_pair x = []"
      by (cases "turn_reply rt r") simp_all
    ultimately show ?thesis by simp
  qed
  with session_as_conversation [OF assms, of rt] show ?thesis
    by (simp add: length_context)
qed

lemma session_after_failed_run:
  "messages (session_after example_runtime [failed_run])
     = [(''assistant'', greeting), (''user'', ''hi''), (''assistant'', ''An error occurred: down'')]"
  "chat_history (session_after example_runtime [failed_run]) = []"
  by (simp_all add: session_after_def main_def Let_def failed_run_def initialize_session_state_def
        get_gemini_response_plain generate_def error_reply_def)

text \<open>
  Claim C2 as stated fails: after a turn whose LLM call raised, the display history has a
  user and assistant pair and the model context is empty.
\<close>

theorem unpaired_error_turn_counterexample:
  "messages (session_after example_runtime [failed_run])
     = [(''assistant'', greeting), (''user'', ''hi''), (''assistant'', ''An error occurred: down'')]
   \<and> chat_history (session_after example_runtime [failed_run]) = []
   \<and> paired_context (tl (messages (session_after example_runtime [failed_run])))
       = [(''user'', [''hi'']), (''model'', [''An error occurred: down''])]
   \<and> chat_history (session_after example_runtime [failed_run])
       \<noteq> paired_context (tl (messages (session_after example_runtime [failed_run])))"
  by (simp add: session_after_failed_run)

theorem display_and_context_aligned_witness:
  "llm_result failed_run = SendRaises ''down''
   \<and> llm_result answered_run = Text ''ok''
   \<and> llm_result echo_run = Text ''An error occurred: down''
   \<and> conversation example_runtime [failed_run, answered_run, echo_run]
       = [(''hi'', Inl ''An error occurred: down''), (''again'', Inr ''ok''),
          (''why'', Inr ''An error occurred: down'')]
   \<and> messages (session_after example_runtime [failed_run, answered_run, echo_run])
       = [(''assistant'', greeting), (''user'', ''hi''), (''assistant'', ''An error occurred: down''),
          (''user'', ''again''), (''assistant'', ''ok''),
          (''user'', ''why''), (''assistant'', ''An error occurred: down'')]
   \<and> chat_history (session_after example_runtime [failed_run, answered_run, echo_run])
       = [(''user'', [''again'']), (''model'', [''ok'']),
          (''user'', [''why'']), (''model'', [''An error occurred: down''])]
   \<and> length (chat_history (session_after example_runtime [failed_run, answered_run, echo_run]))
       = 2 * 2"
proof -
  have h: "\<forall>r \<in> set [failed_run, answered_run, echo_run]. \<forall>m. llm_result r \<noteq> TextRaises m"
    by (simp add: failed_run_def answered_run_def echo_run_def)
  have c: "conversation example_runtime [failed_run, answered_run, echo_run]
       = [(''hi'', Inl ''An error occurred: down''), (''again'', Inr ''ok''),
          (''why'', Inr ''An error occurred: down'')]"
    by (simp add: conversation_def run_exchanges_def turn_reply_def failed_run_def
          answered_run_def echo_run_def error_reply_def)
  have l: "llm_result failed_run = SendRaises ''down''"
    "llm_result answered_run = Text ''ok''"
    "llm_result echo_run = Text ''An error occurred: down''"
    by (simp_all add: failed_run_def answered_run_def echo_run_def)
  from display_and_context_aligned [OF h, of example_runtime]
  have "messages (session_after example_runtime [failed_run, answered_run, echo_run])
       = [(''assistant'', greeting), (''user'', ''hi''), (''assistant'', ''An error occurred: down''),
          (''user'', ''again''), (''assistant'', ''ok''),
          (''user'', ''why''), (''assistant'', ''An error occurred: down'')]
     \<and> chat_history (session_after example_runtime [failed_run, answered_run, echo_run])
       = [(''user'', [''again'']), (''model'', [''ok'']),
          (''user'', [''why'']), (''model'', [''An error occurred: down''])]"
    by (simp add: c)
  with c l show ?thesis by simp
qed

end
